theory Spec2Isabelle
  imports Main
begin

section \<open>Data model\<close>

text \<open>
  A merge request as the GitLab client exposes it to \<^verbatim>\<open>main.py\<close>: the code reads
  \<^verbatim>\<open>mr.iid\<close> (a Python int) and \<^verbatim>\<open>mr.title\<close> only.
\<close>

record mr =
  iid :: int
  title :: string

text \<open>
  The protobuf message \<^verbatim>\<open>api_pb2.Client\<close> with the seven fields the code sets.
  The field \<^verbatim>\<open>id\<close> is called \<open>id_field\<close>, since \<open>id\<close> is the identity function of HOL.
\<close>

record client =
  id_field :: string
  secret :: string
  redirect_uris :: "string list"
  trusted_peers :: "string list"
  public :: bool
  name :: string
  logo_url :: string

text \<open>
  Exceptions. A gRPC stub method reports every failure as \<^verbatim>\<open>grpc.RpcError\<close>.
  The lister (python-gitlab over HTTP) raises \<^verbatim>\<open>GitlabError\<close>, or lets another
  exception through (\<open>OtherException\<close>, any other subclass of \<^verbatim>\<open>Exception\<close>);
  \<^verbatim>\<open>int()\<close> raises \<^verbatim>\<open>ValueError\<close>; a blocking call interrupted by Ctrl+C raises
  \<^verbatim>\<open>KeyboardInterrupt\<close>, which derives from \<^verbatim>\<open>BaseException\<close> and not from
  \<^verbatim>\<open>Exception\<close>. In the model the lister, the sleep and the set-up of the channel
  can raise any of these; the three methods of the stub raise \<^verbatim>\<open>grpc.RpcError\<close> only.
\<close>

datatype rpc_error = RpcError string

datatype exc =
    GitlabError string
  | OtherException string
  | ValueError string
  | KeyboardInterrupt

fun is_GitlabError :: "exc \<Rightarrow> bool" where
  "is_GitlabError (GitlabError m) = True"
| "is_GitlabError _ = False"

fun is_Exception :: "exc \<Rightarrow> bool" where
  "is_Exception KeyboardInterrupt = False"
| "is_Exception _ = True"

text \<open>The lines the program prints, one constructor for each \<^verbatim>\<open>print\<close> of the source.\<close>

datatype message =
    FailedToListClients rpc_error
  | DeletedClient string
  | FailedToDeleteClient string rpc_error
  | ClientAlreadyExists int string
  | CreatedClient int string string
  | RedirectURI string
  | FailedToCreateClient int rpc_error
  | NewMRDetected int string
  | MRsNoLongerOpen "int list"
  | GitLabAPIError exc
  | ErrorProcessing exc
  | ConfigError
  | StartingMonitor string
  | DexHost string
  | CheckingEvery int
  | UsingGitLabCert string
  | UsingDexCert string
  | PressCtrlC
  | InitialCheck
  | Monitoring nat
  | Checking string
  | NoNewMRs nat
  | Goodbye

text \<open>
  What the program does to its surroundings, in order: the requests it sends to the
  two services, the lines it prints, its sleeps, and the traceback that the interpreter
  prints for an exception that nothing catches.
\<close>

datatype event =
    GitlabListReq string string string "string option"
  | ListClientsReq
  | CreateClientReq client
  | DeleteClientReq string
  | SetupDex string "string option"
  | Sleep int
  | Print message
  | Traceback exc

text \<open>
  Everything the program uses and does not define, over a state \<open>'s\<close> of the
  surroundings that the program cannot see:
  the GitLab lister, the three methods of the Dex gRPC stub, \<^verbatim>\<open>secrets.token_urlsafe\<close>,
  the order in which CPython iterates over a set of ints, \<^verbatim>\<open>time.sleep\<close>,
  \<^verbatim>\<open>time.strftime\<close>, the creation of the gRPC channel and the builtin \<^verbatim>\<open>int\<close> on strings
  (\<open>None\<close> where it raises \<^verbatim>\<open>ValueError\<close>).
\<close>

record 's world =
  gitlab_list :: "string \<Rightarrow> string \<Rightarrow> string \<Rightarrow> string option \<Rightarrow> 's \<Rightarrow> (exc + mr list) \<times> 's"
  ListClients :: "'s \<Rightarrow> (rpc_error + client list) \<times> 's"
  CreateClient :: "client \<Rightarrow> 's \<Rightarrow> (rpc_error + client) \<times> 's"
  DeleteClient :: "string \<Rightarrow> 's \<Rightarrow> (rpc_error + unit) \<times> 's"
  token_urlsafe :: "nat \<Rightarrow> 's \<Rightarrow> string \<times> 's"
  set_iter :: "int set \<Rightarrow> int list"
  sleep :: "int \<Rightarrow> 's \<Rightarrow> (exc + unit) \<times> 's"
  strftime :: "'s \<Rightarrow> string"
  dex_channel :: "string \<Rightarrow> string option \<Rightarrow> 's \<Rightarrow> (exc + unit) \<times> 's"
  py_int :: "string \<Rightarrow> int option"

text \<open>The state threaded through the program: the surroundings and the events so far.\<close>

record 's sys =
  ext :: 's
  trace :: "event list"

definition emit :: "event \<Rightarrow> 's \<Rightarrow> 's sys \<Rightarrow> 's sys" where
  "emit e s' st = \<lparr>ext = s', trace = trace st @ [e]\<rparr>"

definition print :: "message \<Rightarrow> 's sys \<Rightarrow> 's sys" where
  "print m st = st\<lparr>trace := trace st @ [Print m]\<rparr>"

section \<open>Python's \<open>str\<close> on an int\<close>

definition digit :: "nat \<Rightarrow> char" where
  "digit d = ''0123456789'' ! d"

fun str_nat :: "nat \<Rightarrow> string" where
  "str_nat n = (if n < 10 then [digit n] else str_nat (n div 10) @ [digit (n mod 10)])"

declare str_nat.simps [simp del]

definition py_str :: "int \<Rightarrow> string" where
  "py_str i = (if i < 0 then CHR ''-'' # str_nat (nat (- i)) else str_nat (nat i))"

section \<open>The functions of \<^verbatim>\<open>main.py\<close>\<close>

text \<open>
  \<^verbatim>\<open>get_open_merge_requests\<close>: one listing of the open merge requests of the project.
  Whatever the GitLab client raises propagates.
\<close>

definition get_open_merge_requests ::
  "'s world \<Rightarrow> string \<Rightarrow> string \<Rightarrow> string \<Rightarrow> string option \<Rightarrow> 's sys \<Rightarrow> (exc + mr list) \<times> 's sys" where
  "get_open_merge_requests w gitlab_url gitlab_token project_id gitlab_cert_path st =
     (case gitlab_list w gitlab_url gitlab_token project_id gitlab_cert_path (ext st) of
        (r, s') \<Rightarrow> (r, emit (GitlabListReq gitlab_url gitlab_token project_id gitlab_cert_path) s' st))"

text \<open>
  \<^verbatim>\<open>client_with_id_exists\<close>. The source returns the pair \<^verbatim>\<open>(True, client)\<close> for the
  first client of the listing with the id, and \<^verbatim>\<open>(False, None)\<close> both when there is none
  and when \<^verbatim>\<open>ListClients\<close> raises \<^verbatim>\<open>grpc.RpcError\<close>. The first component is True
  exactly when the second is a client, so the model returns the second: \<open>Some client\<close> for
  \<^verbatim>\<open>(True, client)\<close>, \<open>None\<close> for \<^verbatim>\<open>(False, None)\<close>.
\<close>

definition client_with_id_exists :: "'s world \<Rightarrow> string \<Rightarrow> 's sys \<Rightarrow> client option \<times> 's sys" where
  "client_with_id_exists w client_id st =
     (case ListClients w (ext st) of
        (Inr clients, s') \<Rightarrow> (find (\<lambda>c. id_field c = client_id) clients, emit ListClientsReq s' st)
      | (Inl e, s') \<Rightarrow> (None, print (FailedToListClients e) (emit ListClientsReq s' st)))"

text \<open>\<^verbatim>\<open>delete_client\<close>: one delete request; an RPC error is printed and reported as False.\<close>

definition delete_client :: "'s world \<Rightarrow> string \<Rightarrow> 's sys \<Rightarrow> bool \<times> 's sys" where
  "delete_client w client_id st =
     (case DeleteClient w client_id (ext st) of
        (Inr u, s') \<Rightarrow> (True, print (DeletedClient client_id) (emit (DeleteClientReq client_id) s' st))
      | (Inl e, s') \<Rightarrow> (False, print (FailedToDeleteClient client_id e) (emit (DeleteClientReq client_id) s' st)))"

definition generate_client_secret :: "'s world \<Rightarrow> int \<Rightarrow> 's sys \<Rightarrow> string \<times> 's sys" where
  "generate_client_secret w mr_number st =
     (case token_urlsafe w 32 (ext st) of (tok, s') \<Rightarrow> (tok, st\<lparr>ext := s'\<rparr>))"

text \<open>
  \<^verbatim>\<open>process_and_create_client\<close>: the secret is drawn before the existence check, as in
  the source; an existing client is skipped, otherwise one create request is sent.
\<close>

definition process_and_create_client :: "'s world \<Rightarrow> mr \<Rightarrow> 's sys \<Rightarrow> bool \<times> 's sys" where
  "process_and_create_client w m st =
     (let client_id = ''mr-'' @ py_str (iid m);
          (client_secret, st1) = generate_client_secret w (iid m) st;
          redirect_uri = ''https://mr-'' @ py_str (iid m) @ ''.preview.example.com/callback''
      in (case client_with_id_exists w client_id st1 of
            (Some existing_client, st2) \<Rightarrow>
              (False, print (ClientAlreadyExists (iid m) (id_field existing_client)) st2)
          | (None, st2) \<Rightarrow>
              (let new_client = \<lparr>id_field = client_id, secret = client_secret,
                     redirect_uris = [redirect_uri], trusted_peers = [], public = False,
                     name = ''MR !'' @ py_str (iid m) @ '' - '' @ title m, logo_url = ''''\<rparr>
               in (case CreateClient w new_client (ext st2) of
                     (Inr response, s') \<Rightarrow>
                       (True, print (RedirectURI redirect_uri)
                                (print (CreatedClient (iid m) (name response) (id_field response))
                                  (emit (CreateClientReq new_client) s' st2)))
                   | (Inl e, s') \<Rightarrow>
                       (False, print (FailedToCreateClient (iid m) e)
                                 (emit (CreateClientReq new_client) s' st2))))))"

text \<open>
  The loop \<^verbatim>\<open>for mr in mrs\<close> of \<^verbatim>\<open>process_merge_requests\<close>, on the rest of the
  listing, with the loop's two variables \<^verbatim>\<open>current_mr_ids\<close> and \<^verbatim>\<open>new_mrs_found\<close>.
\<close>

fun mr_loop :: "'s world \<Rightarrow> int set \<Rightarrow> mr list \<Rightarrow> int set \<Rightarrow> bool \<Rightarrow> 's sys \<Rightarrow> (int set \<times> bool) \<times> 's sys" where
  "mr_loop w known_mr_ids [] current_mr_ids new_mrs_found st = ((current_mr_ids, new_mrs_found), st)"
| "mr_loop w known_mr_ids (m # mrs) current_mr_ids new_mrs_found st =
     (if iid m \<notin> known_mr_ids then
        (case process_and_create_client w m (print (NewMRDetected (iid m) (title m)) st) of
           (created, st') \<Rightarrow>
             mr_loop w known_mr_ids mrs (insert (iid m) current_mr_ids)
               (if created then True else new_mrs_found) st')
      else mr_loop w known_mr_ids mrs (insert (iid m) current_mr_ids) new_mrs_found st)"

text \<open>The loop \<^verbatim>\<open>for mr_iid in closed_mrs\<close>; the result of \<^verbatim>\<open>delete_client\<close> is dropped.\<close>

fun delete_loop :: "'s world \<Rightarrow> int list \<Rightarrow> 's sys \<Rightarrow> 's sys" where
  "delete_loop w [] st = st"
| "delete_loop w (mr_iid # rest) st =
     delete_loop w rest (snd (delete_client w (''mr-'' @ py_str mr_iid) st))"

text \<open>
  \<^verbatim>\<open>process_merge_requests\<close>, one cycle. \<open>Inr\<close> is a return, \<open>Inl\<close> an exception that
  leaves the function: the first handler takes \<^verbatim>\<open>GitlabError\<close>, the second every other
  instance of \<^verbatim>\<open>Exception\<close>, and what is not an instance of \<^verbatim>\<open>Exception\<close> propagates.
  Within the \<^verbatim>\<open>try\<close> only the lister raises: the registry's errors are handled where
  they occur.
\<close>

definition process_merge_requests ::
  "'s world \<Rightarrow> string \<Rightarrow> string \<Rightarrow> string \<Rightarrow> int set \<Rightarrow> string option \<Rightarrow> 's sys
     \<Rightarrow> (exc + int set \<times> bool) \<times> 's sys" where
  "process_merge_requests w gitlab_url gitlab_token project_id known_mr_ids gitlab_cert_path st =
     (case get_open_merge_requests w gitlab_url gitlab_token project_id gitlab_cert_path st of
        (Inr mrs, st1) \<Rightarrow>
          (case mr_loop w known_mr_ids mrs {} False st1 of
             ((current_mr_ids, new_mrs_found), st2) \<Rightarrow>
               (let closed_mrs = known_mr_ids - current_mr_ids
                in (Inr (current_mr_ids, new_mrs_found),
                    if closed_mrs \<noteq> {}
                    then delete_loop w (set_iter w closed_mrs)
                           (print (MRsNoLongerOpen (set_iter w closed_mrs)) st2)
                    else st2)))
      | (Inl e, st1) \<Rightarrow>
          (if is_GitlabError e then (Inr (known_mr_ids, False), print (GitLabAPIError e) st1)
           else if is_Exception e then (Inr (known_mr_ids, False), print (ErrorProcessing e) st1)
           else (Inl e, st1)))"

section \<open>The entry point\<close>

text \<open>
  How the process ends: \<^verbatim>\<open>sys.exit(n)\<close>, an exception that nothing catches, or not
  at all within the number of cycles looked at.
\<close>

datatype outcome = Exit int | Uncaught exc | Running

text \<open>
  The exit status. CPython ends a program whose exception reaches the top level by
  printing the traceback and returning status 1; an uncaught \<^verbatim>\<open>KeyboardInterrupt\<close> ends
  the process through the signal, and no status is given for it here.
\<close>

fun exit_status :: "outcome \<Rightarrow> int option" where
  "exit_status (Exit n) = Some n"
| "exit_status (Uncaught e) = (if is_Exception e then Some 1 else None)"
| "exit_status Running = None"

text \<open>The environment variables: \<^verbatim>\<open>os.getenv\<close> gives None for a variable that is not set.\<close>

type_synonym environ = "string \<rightharpoonup> string"

text \<open>Truth value of an \<^verbatim>\<open>os.getenv\<close> result: None and the empty string are false.\<close>

fun truthy :: "string option \<Rightarrow> bool" where
  "truthy None = False"
| "truthy (Some v) = (v \<noteq> [])"

text \<open>\<^verbatim>\<open>setup_dex_client\<close>: opening the certificate file or the channel may raise.\<close>

definition setup_dex_client :: "'s world \<Rightarrow> string \<Rightarrow> string option \<Rightarrow> 's sys \<Rightarrow> (exc + unit) \<times> 's sys" where
  "setup_dex_client w dex_host dex_cert_path st =
     (case dex_channel w dex_host dex_cert_path (ext st) of
        (r, s') \<Rightarrow> (r, emit (SetupDex dex_host dex_cert_path) s' st))"

text \<open>
  The handler around the polling loop: \<^verbatim>\<open>except KeyboardInterrupt\<close> prints the farewell
  and exits with 0; any other exception is not caught.
\<close>

definition interrupted :: "exc \<Rightarrow> 's sys \<Rightarrow> outcome \<times> 's sys" where
  "interrupted e st = (if e = KeyboardInterrupt then (Exit 0, print Goodbye st) else (Uncaught e, st))"

text \<open>
  The loop \<^verbatim>\<open>while True\<close>. It has no exit of its own; the first argument bounds the number
  of cycles looked at, and \<open>Running\<close> says that the loop is still going after them.
\<close>

fun main_loop ::
  "nat \<Rightarrow> 's world \<Rightarrow> string \<Rightarrow> string \<Rightarrow> string \<Rightarrow> string option \<Rightarrow> int \<Rightarrow> int set \<Rightarrow> 's sys
     \<Rightarrow> outcome \<times> 's sys" where
  "main_loop 0 w gitlab_url gitlab_token project_id gitlab_cert check_interval known_mr_ids st =
     (Running, st)"
| "main_loop (Suc n) w gitlab_url gitlab_token project_id gitlab_cert check_interval known_mr_ids st =
     (case sleep w check_interval (ext st) of
        (Inl e, s') \<Rightarrow> interrupted e (emit (Sleep check_interval) s' st)
      | (Inr u, s') \<Rightarrow>
          (let st1 = emit (Sleep check_interval) s' st;
               st2 = print (Checking (strftime w (ext st1))) st1
           in (case process_merge_requests w gitlab_url gitlab_token project_id known_mr_ids
                      gitlab_cert st2 of
                 (Inl e, st3) \<Rightarrow> interrupted e st3
               | (Inr (known_mr_ids', new_mrs), st3) \<Rightarrow>
                   main_loop n w gitlab_url gitlab_token project_id gitlab_cert check_interval
                     known_mr_ids'
                     (if \<not> new_mrs then print (NoNewMRs (card known_mr_ids')) st3 else st3))))"

text \<open>
  \<^verbatim>\<open>main\<close>. The interval is parsed before the required variables are checked, as in
  the source. After the check the four required variables are set and not empty.
\<close>

definition main :: "nat \<Rightarrow> 's world \<Rightarrow> environ \<Rightarrow> 's sys \<Rightarrow> outcome \<times> 's sys" where
  "main cycles w getenv st =
     (let gitlab_token = getenv ''GITLAB_TOKEN'';
          gitlab_url = getenv ''GITLAB_URL'';
          project_id = getenv ''GITLAB_PROJECT_ID'';
          gitlab_cert = getenv ''GITLAB_CERT_PATH'';
          dex_host = getenv ''DEX_HOST'';
          dex_cert = getenv ''DEX_CERT_PATH'';
          interval_text = (case getenv ''CHECK_INTERVAL'' of None \<Rightarrow> ''30'' | Some v \<Rightarrow> v)
      in (case py_int w interval_text of
            None \<Rightarrow> (Uncaught (ValueError interval_text), st)
          | Some check_interval \<Rightarrow>
              (case (gitlab_token, gitlab_url, project_id, dex_host) of
                 (Some token, Some url, Some project, Some host) \<Rightarrow>
                   (if \<not> list_all truthy [gitlab_token, gitlab_url, project_id, dex_host]
                    then (Exit 1, print ConfigError st)
                    else
                      (let st1 = print (CheckingEvery check_interval)
                                   (print (DexHost host) (print (StartingMonitor project) st));
                           st2 = (case gitlab_cert of None \<Rightarrow> st1
                                  | Some c \<Rightarrow> if c \<noteq> [] then print (UsingGitLabCert c) st1 else st1);
                           st3 = (case dex_cert of None \<Rightarrow> st2
                                  | Some c \<Rightarrow> if c \<noteq> [] then print (UsingDexCert c) st2 else st2);
                           st4 = print PressCtrlC st3
                       in (case setup_dex_client w host dex_cert st4 of
                             (Inl e, st5) \<Rightarrow> (Uncaught e, st5)
                           | (Inr u, st5) \<Rightarrow>
                               (case process_merge_requests w url token project {} gitlab_cert
                                       (print InitialCheck st5) of
                                  (Inl e, st6) \<Rightarrow> (Uncaught e, st6)
                                | (Inr (known_mr_ids, new_mrs), st6) \<Rightarrow>
                                    main_loop cycles w url token project gitlab_cert check_interval
                                      known_mr_ids (print (Monitoring (card known_mr_ids)) st6)))))
               | _ \<Rightarrow> (Exit 1, print ConfigError st))))"

text \<open>
  The program run as a script: \<^verbatim>\<open>main()\<close> under the interpreter. An exception that
  reaches the top level is reported by CPython with a traceback on standard error.
\<close>

definition script :: "nat \<Rightarrow> 's world \<Rightarrow> environ \<Rightarrow> 's sys \<Rightarrow> int option \<times> 's sys" where
  "script cycles w getenv st =
     (case main cycles w getenv st of
        (Uncaught e, st') \<Rightarrow> (exit_status (Uncaught e), st'\<lparr>trace := trace st' @ [Traceback e]\<rparr>)
      | (out, st') \<Rightarrow> (exit_status out, st'))"

text \<open>The four variables that \<^verbatim>\<open>main\<close> requires.\<close>

definition required_keys :: "string list" where
  "required_keys = [''GITLAB_TOKEN'', ''GITLAB_URL'', ''GITLAB_PROJECT_ID'', ''DEX_HOST'']"

section \<open>Reading the trace\<close>

text \<open>The clients of the create requests in a trace, and the ids of its delete requests.\<close>

definition create_requests :: "event list \<Rightarrow> client list" where
  "create_requests evs = concat (map (\<lambda>e. case e of CreateClientReq c \<Rightarrow> [c] | _ \<Rightarrow> []) evs)"

definition delete_requests :: "event list \<Rightarrow> string list" where
  "delete_requests evs = concat (map (\<lambda>e. case e of DeleteClientReq i \<Rightarrow> [i] | _ \<Rightarrow> []) evs)"

text \<open>
  The merge request numbers of the outcome lines in a trace. Each call of
  \<^verbatim>\<open>process_and_create_client\<close> prints exactly one of them: the client exists already,
  it was created, or its creation failed.
\<close>

fun outcome_of :: "event \<Rightarrow> int list" where
  "outcome_of (Print (ClientAlreadyExists i c)) = [i]"
| "outcome_of (Print (CreatedClient i nm c)) = [i]"
| "outcome_of (Print (FailedToCreateClient i e)) = [i]"
| "outcome_of _ = []"

definition ensured :: "event list \<Rightarrow> int list" where
  "ensured evs = concat (map outcome_of evs)"

section \<open>The reconcile step as the specification words it\<close>

text \<open>
  \<open>For each new merge request, attempt EnsureClient\<close>: the announcement of the new merge
  request and one call of \<^verbatim>\<open>process_and_create_client\<close> for each element of the list,
  in order. The counterpart for the closed set is \<open>delete_loop\<close>.
\<close>

definition ensure_each :: "'s world \<Rightarrow> mr list \<Rightarrow> 's sys \<Rightarrow> 's sys" where
  "ensure_each w ms st =
     fold (\<lambda>m st. snd (process_and_create_client w m (print (NewMRDetected (iid m) (title m)) st))) ms st"

section \<open>A small world to run the program in\<close>

text \<open>
  Surroundings without a state of their own: the lister always gives \<open>listing\<close>, the
  registry always lists \<open>clients\<close>, creates succeed when \<open>create_ok\<close>, the delete of an
  id succeeds when \<open>delete_ok\<close> holds for it, and every sleep ends as \<open>slept\<close> says.
\<close>

definition fixed_world ::
  "(exc + mr list) \<Rightarrow> (rpc_error + client list) \<Rightarrow> bool \<Rightarrow> (string \<Rightarrow> bool) \<Rightarrow> (exc + unit) \<Rightarrow> unit world" where
  "fixed_world listing clients create_ok delete_ok slept =
     \<lparr>gitlab_list = (\<lambda>gitlab_url gitlab_token project_id cert s. (listing, s)),
      ListClients = (\<lambda>s. (clients, s)),
      CreateClient = (\<lambda>c s. (if create_ok then Inr c else Inl (RpcError ''unavailable''), s)),
      DeleteClient = (\<lambda>i s. (if delete_ok i then Inr () else Inl (RpcError ''not found''), s)),
      token_urlsafe = (\<lambda>n s. (''t0k3n'', s)),
      set_iter = sorted_list_of_set,
      sleep = (\<lambda>n s. (slept, s)),
      strftime = (\<lambda>s. ''2024-01-01 00:00:00''),
      dex_channel = (\<lambda>host cert s. (Inr (), s)),
      py_int = (\<lambda>t. if t = ''30'' then Some 30 else None)\<rparr>"

definition start :: "unit sys" where
  "start = \<lparr>ext = (), trace = []\<rparr>"

definition mr7 :: mr where
  "mr7 = \<lparr>iid = 7, title = ''fix bug''\<rparr>"

text \<open>A client for merge request 7 that the registry already holds.\<close>

definition existing7 :: client where
  "existing7 = \<lparr>id_field = ''mr-7'', secret = ''0ld'',
     redirect_uris = [''https://mr-7.preview.example.com/callback''],
     trusted_peers = [], public = False, name = ''MR !7 - fix bug'', logo_url = ''''\<rparr>"


text \<open>A second entry of a listing with the number 7.\<close>

definition mr7_again :: mr where
  "mr7_again = \<lparr>iid = 7, title = ''fix bug (again)''\<rparr>"

text \<open>A complete environment, and one without \<^verbatim>\<open>DEX_HOST\<close>.\<close>

definition full_env :: environ where
  "full_env = [''GITLAB_TOKEN'' \<mapsto> ''glpat'', ''GITLAB_URL'' \<mapsto> ''https://gitlab.example.com'',
               ''GITLAB_PROJECT_ID'' \<mapsto> ''42'', ''DEX_HOST'' \<mapsto> ''dex.example.com:5557'']"

definition no_dex_env :: environ where
  "no_dex_env = [''GITLAB_TOKEN'' \<mapsto> ''glpat'', ''GITLAB_URL'' \<mapsto> ''https://gitlab.example.com'',
                 ''GITLAB_PROJECT_ID'' \<mapsto> ''42'']"

section \<open>Basic facts\<close>

lemma trace_emit [simp]: "trace (emit e s' st) = trace st @ [e]"
  by (simp add: emit_def)

lemma ext_emit [simp]: "ext (emit e s' st) = s'"
  by (simp add: emit_def)

lemma trace_print [simp]: "trace (print p st) = trace st @ [Print p]"
  by (simp add: print_def)

lemma ext_print [simp]: "ext (print p st) = ext st"
  by (simp add: print_def)

lemma create_requests_simps [simp]:
  "create_requests [] = []"
  "create_requests (xs @ ys) = create_requests xs @ create_requests ys"
  "create_requests (CreateClientReq c # xs) = c # create_requests xs"
  "create_requests (Print p # xs) = create_requests xs"
  "create_requests (ListClientsReq # xs) = create_requests xs"
  "create_requests (DeleteClientReq i # xs) = create_requests xs"
  "create_requests (GitlabListReq u t pr ce # xs) = create_requests xs"
  by (simp_all add: create_requests_def)

lemma delete_requests_simps [simp]:
  "delete_requests [] = []"
  "delete_requests (xs @ ys) = delete_requests xs @ delete_requests ys"
  "delete_requests (DeleteClientReq i # xs) = i # delete_requests xs"
  "delete_requests (Print p # xs) = delete_requests xs"
  "delete_requests (ListClientsReq # xs) = delete_requests xs"
  "delete_requests (CreateClientReq c # xs) = delete_requests xs"
  "delete_requests (GitlabListReq u t pr ce # xs) = delete_requests xs"
  by (simp_all add: delete_requests_def)

lemma py_str_7: "py_str 7 = ''7''"
  by (simp add: py_str_def str_nat.simps digit_def)

section \<open>The derived client\<close>

text \<open>
  C6. For every merge request number \<open>n\<close> and title \<open>t\<close>, the create requests that
  \<^verbatim>\<open>process_and_create_client\<close> sends are: none when the existence check found a
  client, and otherwise exactly one, for the client with id \<open>mr-n\<close>, the one redirect
  URI \<open>https://mr-n.preview.example.com/callback\<close>, no trusted peers, public false,
  name \<open>MR !n - t\<close>, an empty logo URL, and the secret that was drawn. Everything but
  the secret is a function of \<open>n\<close> and \<open>t\<close>.
\<close>

theorem created_client_fields:
  "create_requests (trace (snd (process_and_create_client w m st))) =
     create_requests (trace st) @
     (case fst (client_with_id_exists w (''mr-'' @ py_str (iid m))
                  (snd (generate_client_secret w (iid m) st))) of
        Some existing \<Rightarrow> []
      | None \<Rightarrow>
          [\<lparr>id_field = ''mr-'' @ py_str (iid m),
            secret = fst (generate_client_secret w (iid m) st),
            redirect_uris = [''https://mr-'' @ py_str (iid m) @ ''.preview.example.com/callback''],
            trusted_peers = [], public = False,
            name = ''MR !'' @ py_str (iid m) @ '' - '' @ title m,
            logo_url = ''''\<rparr>])"
  by (simp add: process_and_create_client_def client_with_id_exists_def
        generate_client_secret_def Let_def
      split: prod.splits sum.splits option.splits)

theorem created_client_fields_witness:
  "create_requests (trace (snd (process_and_create_client
      (fixed_world (Inr []) (Inr []) True (\<lambda>i. True) (Inr ())) mr7 start))) =
   [\<lparr>id_field = ''mr-7'', secret = ''t0k3n'',
     redirect_uris = [''https://mr-7.preview.example.com/callback''],
     trusted_peers = [], public = False, name = ''MR !7 - fix bug'', logo_url = ''''\<rparr>]"
  using created_client_fields [of "fixed_world (Inr []) (Inr []) True (\<lambda>i. True) (Inr ())" mr7 start]
  by (simp add: client_with_id_exists_def generate_client_secret_def fixed_world_def
        start_def mr7_def py_str_7)

section \<open>The existence check\<close>

lemma find_by_id:
  "i \<in> id_field ` set cs \<Longrightarrow> \<exists>c. find (\<lambda>c. id_field c = i) cs = Some c \<and> id_field c = i"
  by (induction cs) auto

text \<open>
  C1, as the specification states it, fails: when \<^verbatim>\<open>ListClients\<close> raises an RPC
  error, \<^verbatim>\<open>client_with_id_exists\<close> prints the error and returns \<^verbatim>\<open>(False, None)\<close>, the
  same value as for an absent client, and \<^verbatim>\<open>process_and_create_client\<close> goes on to
  send the create request. Here the listing fails, the create request for \<open>mr-7\<close> is
  sent all the same, and the function reports True.
\<close>

theorem existence_check_failure_counterexample:
  "fst (ListClients (fixed_world (Inr []) (Inl (RpcError ''down'')) True (\<lambda>i. True) (Inr ())) ()) =
     Inl (RpcError ''down'') \<and>
   process_and_create_client (fixed_world (Inr []) (Inl (RpcError ''down'')) True (\<lambda>i. True) (Inr ()))
       mr7 start =
     (True, \<lparr>ext = (), trace =
        [ListClientsReq, Print (FailedToListClients (RpcError ''down'')),
         CreateClientReq \<lparr>id_field = ''mr-7'', secret = ''t0k3n'',
           redirect_uris = [''https://mr-7.preview.example.com/callback''],
           trusted_peers = [], public = False, name = ''MR !7 - fix bug'', logo_url = ''''\<rparr>,
         Print (CreatedClient 7 ''MR !7 - fix bug'' ''mr-7''),
         Print (RedirectURI ''https://mr-7.preview.example.com/callback'')]\<rparr>)"
  by (simp add: process_and_create_client_def client_with_id_exists_def generate_client_secret_def
        fixed_world_def start_def mr7_def py_str_7 emit_def print_def Let_def)

text \<open>
  C1, amended. If the \<^verbatim>\<open>ListClients\<close> call of the existence check raises an RPC error,
  \<^verbatim>\<open>process_and_create_client\<close> prints the error and proceeds exactly as for an
  absent client: it sends one create request for the derived client, and it reports
  True if that request succeeds and False if it fails.
\<close>

theorem existence_check_failure_proceeds:
  assumes "token_urlsafe w 32 (ext st) = (tok, s1)"
    and "ListClients w s1 = (Inl e, s2)"
  shows "process_and_create_client w m st =
     (let new_client = \<lparr>id_field = ''mr-'' @ py_str (iid m), secret = tok,
            redirect_uris = [''https://mr-'' @ py_str (iid m) @ ''.preview.example.com/callback''],
            trusted_peers = [], public = False,
            name = ''MR !'' @ py_str (iid m) @ '' - '' @ title m, logo_url = ''''\<rparr>;
          checked = trace st @ [ListClientsReq, Print (FailedToListClients e),
                                CreateClientReq new_client]
      in (case CreateClient w new_client s2 of
            (Inr response, s3) \<Rightarrow>
              (True, \<lparr>ext = s3, trace = checked @
                 [Print (CreatedClient (iid m) (name response) (id_field response)),
                  Print (RedirectURI (''https://mr-'' @ py_str (iid m) @ ''.preview.example.com/callback''))]\<rparr>)
          | (Inl e', s3) \<Rightarrow>
              (False, \<lparr>ext = s3, trace = checked @ [Print (FailedToCreateClient (iid m) e')]\<rparr>)))"
  using assms
  by (simp add: process_and_create_client_def client_with_id_exists_def generate_client_secret_def
        Let_def emit_def print_def split: prod.splits sum.splits)

theorem existence_check_failure_proceeds_witness:
  "process_and_create_client (fixed_world (Inr []) (Inl (RpcError ''down'')) False (\<lambda>i. True) (Inr ()))
       mr7 start =
     (False, \<lparr>ext = (), trace =
        [ListClientsReq, Print (FailedToListClients (RpcError ''down'')),
         CreateClientReq \<lparr>id_field = ''mr-7'', secret = ''t0k3n'',
           redirect_uris = [''https://mr-7.preview.example.com/callback''],
           trusted_peers = [], public = False, name = ''MR !7 - fix bug'', logo_url = ''''\<rparr>,
         Print (FailedToCreateClient 7 (RpcError ''unavailable''))]\<rparr>)"
  using existence_check_failure_proceeds
    [where w = "fixed_world (Inr []) (Inl (RpcError ''down'')) False (\<lambda>i. True) (Inr ())"
       and st = start and tok = "''t0k3n''" and ?s1.0 = "()" and e = "RpcError ''down''"
       and ?s2.0 = "()" and m = mr7]
  by (simp add: fixed_world_def start_def mr7_def py_str_7)

text \<open>
  C5. When the existence check succeeds and the listing holds a client with id
  \<open>mr-n\<close>, \<^verbatim>\<open>process_and_create_client\<close> sends the listing request and nothing else
  (no create request, so it asks for no change of the registry), prints that the client
  already exists and is skipped, and returns False. A second call with the same merge
  request, the client still listed, does the same again.
\<close>

theorem ensure_client_idempotent:
  assumes "token_urlsafe w 32 (ext st) = (tok, s1)"
    and "ListClients w s1 = (Inr clients, s2)"
    and "''mr-'' @ py_str (iid m) \<in> id_field ` set clients"
    and "token_urlsafe w 32 s2 = (tok', s3)"
    and "ListClients w s3 = (Inr clients', s4)"
    and "''mr-'' @ py_str (iid m) \<in> id_field ` set clients'"
  shows "process_and_create_client w m st =
           (False, \<lparr>ext = s2, trace = trace st @
              [ListClientsReq, Print (ClientAlreadyExists (iid m) (''mr-'' @ py_str (iid m)))]\<rparr>) \<and>
         process_and_create_client w m (snd (process_and_create_client w m st)) =
           (False, \<lparr>ext = s4, trace = trace st @
              [ListClientsReq, Print (ClientAlreadyExists (iid m) (''mr-'' @ py_str (iid m))),
               ListClientsReq, Print (ClientAlreadyExists (iid m) (''mr-'' @ py_str (iid m)))]\<rparr>)"
proof -
  obtain c where c: "find (\<lambda>c. id_field c = ''mr-'' @ py_str (iid m)) clients = Some c"
      "id_field c = ''mr-'' @ py_str (iid m)"
    using find_by_id [OF assms(3)] by blast
  obtain c' where c': "find (\<lambda>c. id_field c = ''mr-'' @ py_str (iid m)) clients' = Some c'"
      "id_field c' = ''mr-'' @ py_str (iid m)"
    using find_by_id [OF assms(6)] by blast
  have first: "process_and_create_client w m st =
           (False, \<lparr>ext = s2, trace = trace st @
              [ListClientsReq, Print (ClientAlreadyExists (iid m) (''mr-'' @ py_str (iid m)))]\<rparr>)"
    using assms(1,2) c
    by (simp add: process_and_create_client_def client_with_id_exists_def generate_client_secret_def
          Let_def emit_def print_def)
  have second: "process_and_create_client w m (snd (process_and_create_client w m st)) =
           (False, \<lparr>ext = s4, trace = trace st @
              [ListClientsReq, Print (ClientAlreadyExists (iid m) (''mr-'' @ py_str (iid m))),
               ListClientsReq, Print (ClientAlreadyExists (iid m) (''mr-'' @ py_str (iid m)))]\<rparr>)"
    unfolding first using assms(4,5) c'
    by (simp add: process_and_create_client_def client_with_id_exists_def generate_client_secret_def
          Let_def emit_def print_def)
  from first second show ?thesis by blast
qed

theorem ensure_client_idempotent_witness:
  "process_and_create_client (fixed_world (Inr []) (Inr [existing7]) True (\<lambda>i. True) (Inr ())) mr7 start =
     (False, \<lparr>ext = (), trace = [ListClientsReq, Print (ClientAlreadyExists 7 ''mr-7'')]\<rparr>) \<and>
   process_and_create_client (fixed_world (Inr []) (Inr [existing7]) True (\<lambda>i. True) (Inr ())) mr7
       (snd (process_and_create_client
          (fixed_world (Inr []) (Inr [existing7]) True (\<lambda>i. True) (Inr ())) mr7 start)) =
     (False, \<lparr>ext = (), trace = [ListClientsReq, Print (ClientAlreadyExists 7 ''mr-7''),
                                  ListClientsReq, Print (ClientAlreadyExists 7 ''mr-7'')]\<rparr>)"
proof -
  let ?w = "fixed_world (Inr []) (Inr [existing7]) True (\<lambda>i. True) (Inr ())"
  have tok: "token_urlsafe ?w 32 (ext start) = (''t0k3n'', ())"
    and tok': "token_urlsafe ?w 32 () = (''t0k3n'', ())"
    and listing: "ListClients ?w () = (Inr [existing7], ())"
    and listed: "''mr-'' @ py_str (iid mr7) \<in> id_field ` set [existing7]"
    by (simp_all add: fixed_world_def mr7_def existing7_def py_str_7)
  from ensure_client_idempotent [OF tok listing listed tok' listing listed]
  show ?thesis
    by (auto simp add: start_def mr7_def py_str_7)
qed

section \<open>One cycle\<close>

text \<open>
  C3. If the lister raises a GitLab API error, \<^verbatim>\<open>process_merge_requests\<close> returns the
  known set it was given, with False, and the cycle consists of the lister request and
  the printed error: no request goes to the registry.
\<close>

theorem lister_failure_keeps_known_set:
  assumes "gitlab_list w gitlab_url gitlab_token project_id cert (ext st) = (Inl (GitlabError msg), s')"
  shows "process_merge_requests w gitlab_url gitlab_token project_id known_mr_ids cert st =
     (Inr (known_mr_ids, False),
      \<lparr>ext = s', trace = trace st @
         [GitlabListReq gitlab_url gitlab_token project_id cert,
          Print (GitLabAPIError (GitlabError msg))]\<rparr>)"
  using assms
  by (simp add: process_merge_requests_def get_open_merge_requests_def emit_def print_def)

theorem lister_failure_keeps_known_set_witness:
  "process_merge_requests (fixed_world (Inl (GitlabError ''503'')) (Inr []) True (\<lambda>i. True) (Inr ()))
       ''https://gitlab.example.com'' ''glpat'' ''42'' {7} None start =
     (Inr ({7}, False),
      \<lparr>ext = (), trace = [GitlabListReq ''https://gitlab.example.com'' ''glpat'' ''42'' None,
                          Print (GitLabAPIError (GitlabError ''503''))]\<rparr>)"
  using lister_failure_keeps_known_set
    [where w = "fixed_world (Inl (GitlabError ''503'')) (Inr []) True (\<lambda>i. True) (Inr ())"
       and st = start and msg = "''503''" and s' = "()" and known_mr_ids = "{7}"
       and gitlab_url = "''https://gitlab.example.com''" and gitlab_token = "''glpat''"
       and project_id = "''42''" and cert = None]
  by (simp add: fixed_world_def start_def)

lemma mr_loop_ids:
  "fst (fst (mr_loop w known mrs cur nf st)) = cur \<union> iid ` set mrs"
  by (induction mrs arbitrary: cur nf st) (auto split: prod.splits)

text \<open>
  C4. When the lister returns a snapshot, \<^verbatim>\<open>process_merge_requests\<close> returns the set
  of the identifiers in the snapshot as the new known set, in every world: whatever the
  registry answers to the create and delete requests of the cycle.
\<close>

theorem poll_success_returns_snapshot_ids:
  assumes "gitlab_list w gitlab_url gitlab_token project_id cert (ext st) = (Inr mrs, s')"
  shows "\<exists>new_mrs_found.
     fst (process_merge_requests w gitlab_url gitlab_token project_id known_mr_ids cert st) =
       Inr (iid ` set mrs, new_mrs_found)"
proof -
  obtain cur nf st2 where loop:
    "mr_loop w known_mr_ids mrs {} False
        (emit (GitlabListReq gitlab_url gitlab_token project_id cert) s' st) = ((cur, nf), st2)"
    by (metis prod.exhaust)
  have "cur = iid ` set mrs"
    using mr_loop_ids [of w known_mr_ids mrs "{}" False
        "emit (GitlabListReq gitlab_url gitlab_token project_id cert) s' st"] loop by simp
  then show ?thesis
    using assms loop
    by (simp add: process_merge_requests_def get_open_merge_requests_def Let_def)
qed

text \<open>With the create failing and the delete failing, the known set \<open>{8}\<close> still becomes \<open>{7}\<close>.\<close>

theorem poll_success_returns_snapshot_ids_witness:
  "fst (process_merge_requests (fixed_world (Inr [mr7]) (Inr []) False (\<lambda>i. False) (Inr ()))
         ''https://gitlab.example.com'' ''glpat'' ''42'' {8} None start) = Inr ({7}, False) \<and>
   create_requests (trace (snd (process_merge_requests
         (fixed_world (Inr [mr7]) (Inr []) False (\<lambda>i. False) (Inr ()))
         ''https://gitlab.example.com'' ''glpat'' ''42'' {8} None start))) \<noteq> [] \<and>
   delete_requests (trace (snd (process_merge_requests
         (fixed_world (Inr [mr7]) (Inr []) False (\<lambda>i. False) (Inr ()))
         ''https://gitlab.example.com'' ''glpat'' ''42'' {8} None start))) = [''mr-8'']"
  using poll_success_returns_snapshot_ids
    [where w = "fixed_world (Inr [mr7]) (Inr []) False (\<lambda>i. False) (Inr ())"
       and st = start and mrs = "[mr7]" and s' = "()" and known_mr_ids = "{8}"
       and gitlab_url = "''https://gitlab.example.com''" and gitlab_token = "''glpat''"
       and project_id = "''42''" and cert = None]
  by (simp add: process_merge_requests_def get_open_merge_requests_def
        process_and_create_client_def client_with_id_exists_def generate_client_secret_def
        delete_client_def fixed_world_def start_def mr7_def Let_def py_str_def str_nat.simps digit_def)




section \<open>The diff of a cycle\<close>

lemma pcc_grows: "\<exists>evs. trace (snd (process_and_create_client w m st)) = trace st @ evs"
  by (simp add: process_and_create_client_def client_with_id_exists_def generate_client_secret_def
        Let_def split: prod.splits sum.splits option.splits)

lemma pcc_delete_requests [simp]:
  "delete_requests (trace (snd (process_and_create_client w m st))) = delete_requests (trace st)"
  by (simp add: process_and_create_client_def client_with_id_exists_def generate_client_secret_def
        Let_def split: prod.splits sum.splits option.splits)

lemma delete_client_grows: "\<exists>evs. trace (snd (delete_client w i st)) = trace st @ evs"
  by (simp add: delete_client_def split: prod.splits sum.splits)

lemma delete_client_requests [simp]:
  "delete_requests (trace (snd (delete_client w i st))) = delete_requests (trace st) @ [i]"
  by (simp add: delete_client_def split: prod.splits sum.splits)

lemma delete_loop_grows: "\<exists>evs. trace (delete_loop w is st) = trace st @ evs"
proof (induction "is" arbitrary: st)
  case Nil
  then show ?case by simp
next
  case (Cons i "is")
  obtain evs where "trace (snd (delete_client w (''mr-'' @ py_str i) st)) = trace st @ evs"
    using delete_client_grows by blast
  moreover obtain evs' where
    "trace (delete_loop w is (snd (delete_client w (''mr-'' @ py_str i) st))) =
       trace (snd (delete_client w (''mr-'' @ py_str i) st)) @ evs'"
    using Cons.IH by blast
  ultimately show ?case by simp
qed

lemma delete_loop_requests [simp]:
  "delete_requests (trace (delete_loop w is st)) =
     delete_requests (trace st) @ map (\<lambda>i. ''mr-'' @ py_str i) is"
  by (induction "is" arbitrary: st) auto

lemma mr_loop_ensure_each:
  "snd (mr_loop w known mrs cur nf st) = ensure_each w (filter (\<lambda>m. iid m \<notin> known) mrs) st"
  by (induction mrs arbitrary: cur nf st) (auto simp: ensure_each_def split: prod.splits)

text \<open>The state after a cycle whose listing succeeded.\<close>

lemma cycle_state:
  assumes "gitlab_list w gitlab_url gitlab_token project_id cert (ext st) = (Inr mrs, s')"
  shows "snd (process_merge_requests w gitlab_url gitlab_token project_id known cert st) =
     (let st2 = ensure_each w (filter (\<lambda>m. iid m \<notin> known) mrs)
                  (emit (GitlabListReq gitlab_url gitlab_token project_id cert) s' st);
          closed_mrs = known - iid ` set mrs
      in if closed_mrs \<noteq> {}
         then delete_loop w (set_iter w closed_mrs) (print (MRsNoLongerOpen (set_iter w closed_mrs)) st2)
         else st2)"
proof -
  obtain cur nf st2 where loop:
    "mr_loop w known mrs {} False
        (emit (GitlabListReq gitlab_url gitlab_token project_id cert) s' st) = ((cur, nf), st2)"
    by (metis prod.exhaust)
  have cur: "cur = iid ` set mrs"
    using mr_loop_ids [of w known mrs "{}" False
        "emit (GitlabListReq gitlab_url gitlab_token project_id cert) s' st"] loop by simp
  have st2: "st2 = ensure_each w (filter (\<lambda>m. iid m \<notin> known) mrs)
                  (emit (GitlabListReq gitlab_url gitlab_token project_id cert) s' st)"
    using mr_loop_ensure_each [of w known mrs "{}" False
        "emit (GitlabListReq gitlab_url gitlab_token project_id cert) s' st"] loop by simp
  show ?thesis
    using assms loop cur st2
    by (simp add: process_merge_requests_def get_open_merge_requests_def Let_def)
qed




lemma ensured_simps [simp]:
  "ensured [] = []"
  "ensured (xs @ ys) = ensured xs @ ensured ys"
  "ensured (e # xs) = outcome_of e @ ensured xs"
  by (simp_all add: ensured_def)

lemma pcc_ensured [simp]:
  "ensured (trace (snd (process_and_create_client w m st))) = ensured (trace st) @ [iid m]"
  by (simp add: process_and_create_client_def client_with_id_exists_def generate_client_secret_def
        Let_def split: prod.splits sum.splits option.splits)

lemma delete_client_ensured [simp]:
  "ensured (trace (snd (delete_client w i st))) = ensured (trace st)"
  by (simp add: delete_client_def split: prod.splits sum.splits)

lemma delete_loop_ensured [simp]:
  "ensured (trace (delete_loop w is st)) = ensured (trace st)"
  by (induction "is" arbitrary: st) auto

lemma ensure_each_Cons [simp]:
  "ensure_each w (m # ms) st =
     ensure_each w ms (snd (process_and_create_client w m (print (NewMRDetected (iid m) (title m)) st)))"
  by (simp add: ensure_each_def)

lemma ensure_each_Nil [simp]: "ensure_each w [] st = st"
  by (simp add: ensure_each_def)

lemma ensure_each_grows: "\<exists>evs. trace (ensure_each w ms st) = trace st @ evs"
proof (induction ms arbitrary: st)
  case Nil
  then show ?case by simp
next
  case (Cons m ms)
  obtain evs where
    "trace (snd (process_and_create_client w m (print (NewMRDetected (iid m) (title m)) st))) =
       trace st @ Print (NewMRDetected (iid m) (title m)) # evs"
    using pcc_grows [of w m "print (NewMRDetected (iid m) (title m)) st"] by auto
  moreover obtain evs' where
    "trace (ensure_each w ms (snd (process_and_create_client w m
        (print (NewMRDetected (iid m) (title m)) st)))) =
     trace (snd (process_and_create_client w m (print (NewMRDetected (iid m) (title m)) st))) @ evs'"
    using Cons.IH by blast
  ultimately show ?case by simp
qed

lemma ensure_each_ensured [simp]:
  "ensured (trace (ensure_each w ms st)) = ensured (trace st) @ map iid ms"
  by (induction ms arbitrary: st) auto

lemma ensure_each_delete_requests [simp]:
  "delete_requests (trace (ensure_each w ms st)) = delete_requests (trace st)"
  by (induction ms arbitrary: st) auto

lemma cycle_grows:
  assumes "gitlab_list w gitlab_url gitlab_token project_id cert (ext st) = (Inr mrs, s')"
  shows "\<exists>evs. trace (snd (process_merge_requests w gitlab_url gitlab_token project_id known cert st)) =
           trace st @ evs"
proof -
  let ?st1 = "emit (GitlabListReq gitlab_url gitlab_token project_id cert) s' st"
  let ?st2 = "ensure_each w (filter (\<lambda>m. iid m \<notin> known) mrs) ?st1"
  let ?closed = "set_iter w (known - iid ` set mrs)"
  obtain evs where evs: "trace ?st2 = trace st @ GitlabListReq gitlab_url gitlab_token project_id cert # evs"
    using ensure_each_grows [of w "filter (\<lambda>m. iid m \<notin> known) mrs" ?st1] by auto
  obtain evs' where evs': "trace (delete_loop w ?closed (print (MRsNoLongerOpen ?closed) ?st2)) =
       trace (print (MRsNoLongerOpen ?closed) ?st2) @ evs'"
    using delete_loop_grows by blast
  show ?thesis
    using evs evs' by (simp add: cycle_state [OF assms] Let_def)
qed

lemma cycle_delete_requests:
  assumes "gitlab_list w gitlab_url gitlab_token project_id cert (ext st) = (Inr mrs, s')"
    and "set (set_iter w (known - iid ` set mrs)) = known - iid ` set mrs"
  shows "delete_requests (trace (snd (process_merge_requests w gitlab_url gitlab_token project_id
             known cert st))) =
         delete_requests (trace st) @ map (\<lambda>i. ''mr-'' @ py_str i) (set_iter w (known - iid ` set mrs))"
proof (cases "known - iid ` set mrs = {}")
  case True
  then have "set (set_iter w (known - iid ` set mrs)) = {}" using assms(2) by simp
  then have closed: "set_iter w (known - iid ` set mrs) = []" by (simp only: set_empty)
  have "delete_requests (trace (snd (process_merge_requests w gitlab_url gitlab_token project_id
             known cert st))) = delete_requests (trace st)"
    using True by (simp add: cycle_state [OF assms(1)])
  then show ?thesis unfolding closed by simp
next
  case False
  then show ?thesis by (simp add: cycle_state [OF assms(1)])
qed

lemma cycle_ensured:
  assumes "gitlab_list w gitlab_url gitlab_token project_id cert (ext st) = (Inr mrs, s')"
  shows "ensured (trace (snd (process_merge_requests w gitlab_url gitlab_token project_id
             known cert st))) =
         ensured (trace st) @ map iid (filter (\<lambda>m. iid m \<notin> known) mrs)"
  by (simp add: cycle_state [OF assms] Let_def)

lemma delete_requests_mem: "i \<in> set (delete_requests evs) \<longleftrightarrow> DeleteClientReq i \<in> set evs"
  by (induction evs) (auto simp: delete_requests_def split: event.splits)

text \<open>
  C7. In every world, that is whatever the registry answers to each delete request,
  the cycle sends a delete request for every identifier of the closed set: the delete
  requests of the cycle are those for the elements of the iteration over the closed set,
  in order. An RPC error of one delete is printed and the loop goes on.
\<close>

theorem delete_failure_does_not_stop_deletes:
  assumes "gitlab_list w gitlab_url gitlab_token project_id cert (ext st) = (Inr mrs, s')"
    and "set (set_iter w (prev - iid ` set mrs)) = prev - iid ` set mrs"
  shows "\<exists>evs. trace (snd (process_merge_requests w gitlab_url gitlab_token project_id prev cert st)) =
                 trace st @ evs \<and>
               delete_requests evs = map (\<lambda>i. ''mr-'' @ py_str i) (set_iter w (prev - iid ` set mrs)) \<and>
               (\<forall>i \<in> prev - iid ` set mrs. DeleteClientReq (''mr-'' @ py_str i) \<in> set evs)"
proof -
  obtain evs where evs:
    "trace (snd (process_merge_requests w gitlab_url gitlab_token project_id prev cert st)) = trace st @ evs"
    using cycle_grows [OF assms(1)] by blast
  have reqs: "delete_requests evs = map (\<lambda>i. ''mr-'' @ py_str i) (set_iter w (prev - iid ` set mrs))"
    using cycle_delete_requests [OF assms] evs by simp
  have "\<forall>i \<in> prev - iid ` set mrs. ''mr-'' @ py_str i \<in> set (delete_requests evs)"
    unfolding reqs using assms(2) by auto
  then have "\<forall>i \<in> prev - iid ` set mrs. DeleteClientReq (''mr-'' @ py_str i) \<in> set evs"
    by (simp add: delete_requests_mem)
  with evs reqs show ?thesis by blast
qed

text \<open>
  C10. If the snapshot has more than one entry with an identifier \<open>n\<close> that is not in
  the previous known set, \<^verbatim>\<open>process_and_create_client\<close> runs once for each of these
  entries, so more than once for \<open>n\<close>; the returned known set is the set of the
  identifiers of the snapshot, and a set holds \<open>n\<close> once.
\<close>

theorem duplicate_entries_each_reach_create_path:
  assumes "gitlab_list w gitlab_url gitlab_token project_id cert (ext st) = (Inr mrs, s')"
    and "n \<notin> prev"
    and "1 < length (filter (\<lambda>m. iid m = n) mrs)"
  shows "\<exists>evs new_mrs_found.
           trace (snd (process_merge_requests w gitlab_url gitlab_token project_id prev cert st)) =
             trace st @ evs \<and>
           count_list (ensured evs) n = length (filter (\<lambda>m. iid m = n) mrs) \<and>
           1 < count_list (ensured evs) n \<and>
           fst (process_merge_requests w gitlab_url gitlab_token project_id prev cert st) =
             Inr (iid ` set mrs, new_mrs_found) \<and>
           n \<in> iid ` set mrs"
proof -
  obtain evs where evs:
    "trace (snd (process_merge_requests w gitlab_url gitlab_token project_id prev cert st)) = trace st @ evs"
    using cycle_grows [OF assms(1)] by blast
  have "ensured evs = map iid (filter (\<lambda>m. iid m \<notin> prev) mrs)"
    using cycle_ensured [OF assms(1), of prev] evs by simp
  moreover have "count_list (map iid (filter (\<lambda>m. iid m \<notin> prev) mrs)) n =
      length (filter (\<lambda>m. iid m = n) mrs)"
    using assms(2) by (induction mrs) auto
  ultimately have count: "count_list (ensured evs) n = length (filter (\<lambda>m. iid m = n) mrs)"
    by simp
  obtain nf where ret:
    "fst (process_merge_requests w gitlab_url gitlab_token project_id prev cert st) =
       Inr (iid ` set mrs, nf)"
  proof -
    obtain cur nf st2 where loop:
      "mr_loop w prev mrs {} False
          (emit (GitlabListReq gitlab_url gitlab_token project_id cert) s' st) = ((cur, nf), st2)"
      by (metis prod.exhaust)
    have "cur = iid ` set mrs"
      using mr_loop_ids [of w prev mrs "{}" False
          "emit (GitlabListReq gitlab_url gitlab_token project_id cert) s' st"] loop by simp
    then have "fst (process_merge_requests w gitlab_url gitlab_token project_id prev cert st) =
       Inr (iid ` set mrs, nf)"
      using assms(1) loop
      by (simp add: process_merge_requests_def get_open_merge_requests_def Let_def)
    then show ?thesis using that by blast
  qed
  have "filter (\<lambda>m. iid m = n) mrs \<noteq> []"
    using assms(3) by auto
  then have "n \<in> iid ` set mrs"
    by (metis (mono_tags, lifting) filter_empty_conv image_eqI)
  with evs count ret assms(3) show ?thesis by auto
qed

lemma py_str_8: "py_str 8 = ''8''"
  by (simp add: py_str_def str_nat.simps digit_def)

lemmas run_defs = process_and_create_client_def client_with_id_exists_def
  generate_client_secret_def delete_client_def fixed_world_def start_def Let_def


text \<open>The delete of \<open>mr-7\<close> fails; the delete of \<open>mr-8\<close> is sent and succeeds.\<close>

theorem delete_failure_does_not_stop_deletes_witness:
  "delete_requests (trace (snd (process_merge_requests
       (fixed_world (Inr []) (Inr []) True (\<lambda>i. i \<noteq> ''mr-7'') (Inr ()))
       ''https://gitlab.example.com'' ''glpat'' ''42'' {7, 8} None start))) = [''mr-7'', ''mr-8''] \<and>
   Print (FailedToDeleteClient ''mr-7'' (RpcError ''not found'')) \<in> set (trace (snd (process_merge_requests
       (fixed_world (Inr []) (Inr []) True (\<lambda>i. i \<noteq> ''mr-7'') (Inr ()))
       ''https://gitlab.example.com'' ''glpat'' ''42'' {7, 8} None start))) \<and>
   Print (DeletedClient ''mr-8'') \<in> set (trace (snd (process_merge_requests
       (fixed_world (Inr []) (Inr []) True (\<lambda>i. i \<noteq> ''mr-7'') (Inr ()))
       ''https://gitlab.example.com'' ''glpat'' ''42'' {7, 8} None start)))"
proof -
  let ?w = "fixed_world (Inr []) (Inr []) True (\<lambda>i. i \<noteq> ''mr-7'') (Inr ())"
  let ?st = "snd (process_merge_requests ?w ''https://gitlab.example.com'' ''glpat'' ''42'' {7, 8} None start)"
  have closed: "set_iter ?w ({7, 8} - iid ` set ([] :: mr list)) = [7, 8]"
    by (simp add: fixed_world_def)
  have listing: "gitlab_list ?w ''https://gitlab.example.com'' ''glpat'' ''42'' None (ext start) =
      (Inr [], ())"
    by (simp add: fixed_world_def)
  have s: "set (set_iter ?w ({7, 8} - iid ` set ([] :: mr list))) = {7, 8} - iid ` set ([] :: mr list)"
    unfolding closed by auto
  from delete_failure_does_not_stop_deletes [OF listing s]
  obtain evs where evs: "trace ?st = trace start @ evs"
      "delete_requests evs = map (\<lambda>i. ''mr-'' @ py_str i) (set_iter ?w ({7, 8} - iid ` set ([] :: mr list)))"
    by (elim exE conjE) (rule that)
  have "delete_requests (trace ?st) = [''mr-7'', ''mr-8'']"
    using evs closed by (simp add: start_def py_str_7 py_str_8)
  moreover have "trace ?st =
     [GitlabListReq ''https://gitlab.example.com'' ''glpat'' ''42'' None,
      Print (MRsNoLongerOpen [7, 8]),
      DeleteClientReq ''mr-7'', Print (FailedToDeleteClient ''mr-7'' (RpcError ''not found'')),
      DeleteClientReq ''mr-8'', Print (DeletedClient ''mr-8'')]"
    by (simp add: process_merge_requests_def get_open_merge_requests_def run_defs py_str_7 py_str_8)
  ultimately show ?thesis by simp
qed

text \<open>Two entries with the number 7: two create requests, and the known set \<open>{7}\<close>.\<close>

theorem duplicate_entries_each_reach_create_path_witness:
  "ensured (trace (snd (process_merge_requests
       (fixed_world (Inr [mr7, mr7_again]) (Inr []) True (\<lambda>i. True) (Inr ()))
       ''https://gitlab.example.com'' ''glpat'' ''42'' {} None start))) = [7, 7] \<and>
   length (create_requests (trace (snd (process_merge_requests
       (fixed_world (Inr [mr7, mr7_again]) (Inr []) True (\<lambda>i. True) (Inr ()))
       ''https://gitlab.example.com'' ''glpat'' ''42'' {} None start)))) = 2 \<and>
   fst (process_merge_requests
       (fixed_world (Inr [mr7, mr7_again]) (Inr []) True (\<lambda>i. True) (Inr ()))
       ''https://gitlab.example.com'' ''glpat'' ''42'' {} None start) = Inr ({7}, True)"
proof -
  let ?w = "fixed_world (Inr [mr7, mr7_again]) (Inr []) True (\<lambda>i. True) (Inr ())"
  have listing: "gitlab_list ?w ''https://gitlab.example.com'' ''glpat'' ''42'' None (ext start) =
      (Inr [mr7, mr7_again], ())"
    by (simp add: fixed_world_def)
  have twice: "1 < length (filter (\<lambda>m. iid m = 7) [mr7, mr7_again])"
    by (simp add: mr7_def mr7_again_def)
  from duplicate_entries_each_reach_create_path [OF listing _ twice, where prev = "{}"]
  obtain evs where
    "trace (snd (process_merge_requests ?w ''https://gitlab.example.com'' ''glpat'' ''42'' {} None start)) =
       trace start @ evs"
    "1 < count_list (ensured evs) 7"
    by auto
  then have "1 < count_list (ensured (trace (snd (process_merge_requests ?w
       ''https://gitlab.example.com'' ''glpat'' ''42'' {} None start)))) 7"
    by (simp add: start_def)
  then show ?thesis
    by (simp add: process_merge_requests_def get_open_merge_requests_def run_defs
          mr7_def mr7_again_def py_str_7)
qed

section \<open>Exit codes\<close>

lemma main_missing:
  assumes "k \<in> set required_keys" and "getenv k = None"
  shows "main cycles w getenv st =
     (case py_int w (case getenv ''CHECK_INTERVAL'' of None \<Rightarrow> ''30'' | Some v \<Rightarrow> v) of
        None \<Rightarrow> (Uncaught (ValueError (case getenv ''CHECK_INTERVAL'' of None \<Rightarrow> ''30'' | Some v \<Rightarrow> v)), st)
      | Some check_interval \<Rightarrow> (Exit 1, print ConfigError st))"
  using assms
  by (auto simp: main_def required_keys_def Let_def split: option.splits)

text \<open>
  C8. If one of the four required variables is not set, the script ends with status 1,
  and all it has done by then is to print one diagnostic: the configuration error of
  \<^verbatim>\<open>main\<close>, or, when \<^verbatim>\<open>CHECK_INTERVAL\<close> is set to a text that \<^verbatim>\<open>int\<close> rejects, the
  traceback of the \<^verbatim>\<open>ValueError\<close> that \<^verbatim>\<open>int\<close> raised one line before the check. No
  service was called and the polling loop was not entered. In the polling loop a
  \<^verbatim>\<open>KeyboardInterrupt\<close>, during the sleep or during the listing of a cycle, makes
  \<^verbatim>\<open>main\<close> print its farewell and exit with status 0.
\<close>

theorem exit_codes:
  "(\<forall>k \<in> set required_keys. getenv k = None \<longrightarrow>
      script cycles w getenv st =
        (Some 1, st\<lparr>trace := trace st @
           [case py_int w (case getenv ''CHECK_INTERVAL'' of None \<Rightarrow> ''30'' | Some v \<Rightarrow> v) of
              None \<Rightarrow> Traceback (ValueError (case getenv ''CHECK_INTERVAL'' of None \<Rightarrow> ''30'' | Some v \<Rightarrow> v))
            | Some check_interval \<Rightarrow> Print ConfigError]\<rparr>)) \<and>
   (\<forall>s'. sleep w check_interval (ext st) = (Inl KeyboardInterrupt, s') \<longrightarrow>
      main_loop (Suc n) w gitlab_url gitlab_token project_id cert check_interval known_mr_ids st =
        (Exit 0, \<lparr>ext = s', trace = trace st @ [Sleep check_interval, Print Goodbye]\<rparr>) \<and>
      exit_status (fst (main_loop (Suc n) w gitlab_url gitlab_token project_id cert check_interval
        known_mr_ids st)) = Some 0) \<and>
   (\<forall>s1 s2. sleep w check_interval (ext st) = (Inr (), s1) \<and>
        gitlab_list w gitlab_url gitlab_token project_id cert s1 = (Inl KeyboardInterrupt, s2) \<longrightarrow>
      main_loop (Suc n) w gitlab_url gitlab_token project_id cert check_interval known_mr_ids st =
        (Exit 0, \<lparr>ext = s2, trace = trace st @
           [Sleep check_interval, Print (Checking (strftime w s1)),
            GitlabListReq gitlab_url gitlab_token project_id cert, Print Goodbye]\<rparr>) \<and>
      exit_status (fst (main_loop (Suc n) w gitlab_url gitlab_token project_id cert check_interval
        known_mr_ids st)) = Some 0)"
proof (intro conjI ballI allI impI)
  fix k
  assume "k \<in> set required_keys" and "getenv k = None"
  then show "script cycles w getenv st =
        (Some 1, st\<lparr>trace := trace st @
           [case py_int w (case getenv ''CHECK_INTERVAL'' of None \<Rightarrow> ''30'' | Some v \<Rightarrow> v) of
              None \<Rightarrow> Traceback (ValueError (case getenv ''CHECK_INTERVAL'' of None \<Rightarrow> ''30'' | Some v \<Rightarrow> v))
            | Some check_interval \<Rightarrow> Print ConfigError]\<rparr>)"
    by (simp add: script_def main_missing print_def split: option.splits)
next
  fix s'
  assume a: "sleep w check_interval (ext st) = (Inl KeyboardInterrupt, s')"
  then show r: "main_loop (Suc n) w gitlab_url gitlab_token project_id cert check_interval known_mr_ids st =
        (Exit 0, \<lparr>ext = s', trace = trace st @ [Sleep check_interval, Print Goodbye]\<rparr>)"
    by (simp add: interrupted_def emit_def print_def)
  show "exit_status (fst (main_loop (Suc n) w gitlab_url gitlab_token project_id cert check_interval
        known_mr_ids st)) = Some 0"
    unfolding r by simp
next
  fix s1 s2
  assume "sleep w check_interval (ext st) = (Inr (), s1) \<and>
        gitlab_list w gitlab_url gitlab_token project_id cert s1 = (Inl KeyboardInterrupt, s2)"
  then show r: "main_loop (Suc n) w gitlab_url gitlab_token project_id cert check_interval known_mr_ids st =
        (Exit 0, \<lparr>ext = s2, trace = trace st @
           [Sleep check_interval, Print (Checking (strftime w s1)),
            GitlabListReq gitlab_url gitlab_token project_id cert, Print Goodbye]\<rparr>)"
    by (simp add: interrupted_def emit_def print_def process_merge_requests_def
          get_open_merge_requests_def Let_def)
  show "exit_status (fst (main_loop (Suc n) w gitlab_url gitlab_token project_id cert check_interval
        known_mr_ids st)) = Some 0"
    unfolding r by simp
qed

text \<open>
  Without \<^verbatim>\<open>DEX_HOST\<close> the script prints the configuration error and ends with 1. With
  the complete environment it sets up, runs the initial check, and is interrupted in
  its first sleep: it ends with 0.
\<close>

theorem exit_codes_witness:
  "script 3 (fixed_world (Inr [mr7]) (Inr []) True (\<lambda>i. True) (Inl KeyboardInterrupt))
       no_dex_env start = (Some 1, \<lparr>ext = (), trace = [Print ConfigError]\<rparr>) \<and>
   main_loop (Suc 2) (fixed_world (Inr [mr7]) (Inr []) True (\<lambda>i. True) (Inl KeyboardInterrupt))
       ''https://gitlab.example.com'' ''glpat'' ''42'' None 30 {7} start =
     (Exit 0, \<lparr>ext = (), trace = [Sleep 30, Print Goodbye]\<rparr>) \<and>
   script 3 (fixed_world (Inr [mr7]) (Inr []) True (\<lambda>i. True) (Inl KeyboardInterrupt))
       full_env start = (Some 0, \<lparr>ext = (), trace =
     [Print (StartingMonitor ''42''), Print (DexHost ''dex.example.com:5557''),
      Print (CheckingEvery 30), Print PressCtrlC,
      SetupDex ''dex.example.com:5557'' None, Print InitialCheck,
      GitlabListReq ''https://gitlab.example.com'' ''glpat'' ''42'' None,
      Print (NewMRDetected 7 ''fix bug''), ListClientsReq,
      CreateClientReq \<lparr>id_field = ''mr-7'', secret = ''t0k3n'',
        redirect_uris = [''https://mr-7.preview.example.com/callback''],
        trusted_peers = [], public = False, name = ''MR !7 - fix bug'', logo_url = ''''\<rparr>,
      Print (CreatedClient 7 ''MR !7 - fix bug'' ''mr-7''),
      Print (RedirectURI ''https://mr-7.preview.example.com/callback''),
      Print (Monitoring 1), Sleep 30, Print Goodbye]\<rparr>)"
proof -
  let ?w = "fixed_world (Inr [mr7]) (Inr []) True (\<lambda>i. True) (Inl KeyboardInterrupt)"
  have missing: "''DEX_HOST'' \<in> set required_keys" "no_dex_env ''DEX_HOST'' = None"
    by (simp_all add: required_keys_def no_dex_env_def)
  have slept: "sleep ?w 30 (ext start) = (Inl KeyboardInterrupt, ())"
    by (simp add: fixed_world_def)
  note c8 = exit_codes [where w = ?w and getenv = no_dex_env and st = start and cycles = 3
      and check_interval = 30 and n = 2 and gitlab_url = "''https://gitlab.example.com''"
      and gitlab_token = "''glpat''" and project_id = "''42''" and cert = None
      and known_mr_ids = "{7}"]
  from c8 missing have "script 3 ?w no_dex_env start =
      (Some 1, start\<lparr>trace := trace start @
         [case py_int ?w (case no_dex_env ''CHECK_INTERVAL'' of None \<Rightarrow> ''30'' | Some v \<Rightarrow> v) of
            None \<Rightarrow> Traceback (ValueError (case no_dex_env ''CHECK_INTERVAL'' of None \<Rightarrow> ''30'' | Some v \<Rightarrow> v))
          | Some check_interval \<Rightarrow> Print ConfigError]\<rparr>)"
    by blast
  then have one: "script 3 ?w no_dex_env start = (Some 1, \<lparr>ext = (), trace = [Print ConfigError]\<rparr>)"
    by (simp add: no_dex_env_def fixed_world_def start_def)
  from c8 slept have "main_loop (Suc 2) ?w ''https://gitlab.example.com'' ''glpat'' ''42'' None 30 {7} start =
      (Exit 0, \<lparr>ext = (), trace = trace start @ [Sleep 30, Print Goodbye]\<rparr>)"
    by blast
  then have two: "main_loop (Suc 2) ?w ''https://gitlab.example.com'' ''glpat'' ''42'' None 30 {7} start =
      (Exit 0, \<lparr>ext = (), trace = [Sleep 30, Print Goodbye]\<rparr>)"
    by (simp add: start_def)
  have three: "script 3 ?w full_env start = (Some 0, \<lparr>ext = (), trace =
     [Print (StartingMonitor ''42''), Print (DexHost ''dex.example.com:5557''),
      Print (CheckingEvery 30), Print PressCtrlC,
      SetupDex ''dex.example.com:5557'' None, Print InitialCheck,
      GitlabListReq ''https://gitlab.example.com'' ''glpat'' ''42'' None,
      Print (NewMRDetected 7 ''fix bug''), ListClientsReq,
      CreateClientReq \<lparr>id_field = ''mr-7'', secret = ''t0k3n'',
        redirect_uris = [''https://mr-7.preview.example.com/callback''],
        trusted_peers = [], public = False, name = ''MR !7 - fix bug'', logo_url = ''''\<rparr>,
      Print (CreatedClient 7 ''MR !7 - fix bug'' ''mr-7''),
      Print (RedirectURI ''https://mr-7.preview.example.com/callback''),
      Print (Monitoring 1), Sleep 30, Print Goodbye]\<rparr>)"
    by (simp add: script_def main_def full_env_def fixed_world_def start_def print_def Let_def
       setup_dex_client_def process_merge_requests_def get_open_merge_requests_def
       process_and_create_client_def client_with_id_exists_def generate_client_secret_def
       interrupted_def emit_def mr7_def py_str_7 numeral_3_eq_3)
  from one two three show ?thesis by blast
qed

end
